theory Spec2Isabelle
  imports Main "HOL-Library.AList"
begin

section \<open>The E2B executor of smolagents: a shallow embedding of \<^verbatim>\<open>e2b_executor.py\<close>\<close>

text \<open>
  The controller runs generated code in a remote sandbox, catches the interruption that a
  managed-agent stub signals, runs the agent locally, rewrites the code and resubmits it.
  Python values that the executor only passes along (agent arguments and results, the values
  of the shared state, the attributes of a result artifact) are of an arbitrary type \<open>'v\<close>.
  A Python \<open>str\<close> is a \<open>string\<close> whose characters stand for code points below 256.
  Calls of the logger are not modelled.
\<close>

subsection \<open>String operations of the Python library\<close>

abbreviation nl :: char where "nl \<equiv> CHR 0x0A"
abbreviation dq :: char where "dq \<equiv> CHR 0x22"
abbreviation sq :: char where "sq \<equiv> CHR 0x27"

text \<open>\<^verbatim>\<open>sep.join(xs)\<close>\<close>

fun join :: "string \<Rightarrow> string list \<Rightarrow> string" where
  "join sep [] = []"
| "join sep [x] = x"
| "join sep (x # y # ys) = x @ sep @ join sep (y # ys)"

text \<open>
  \<^verbatim>\<open>str.splitlines()\<close>: a line ends at \<open>\n\<close>, \<open>\r\<close>, \<open>\r\n\<close>, \<open>\v\<close>, \<open>\f\<close>,
  \<open>\x1c\<close>, \<open>\x1d\<close>, \<open>\x1e\<close> or \<open>\x85\<close>; the line ends are dropped and no empty
  last line is produced. (The boundaries U+2028 and U+2029 lie outside the characters of
  \<open>string\<close>.) The first argument is the line read so far.
\<close>

definition is_linebreak :: "char \<Rightarrow> bool" where
  "is_linebreak c \<longleftrightarrow>
     c \<in> {CHR 0x0A, CHR 0x0B, CHR 0x0C, CHR 0x0D, CHR 0x1C, CHR 0x1D, CHR 0x1E, CHR 0x85}"

fun splitlines_from :: "string \<Rightarrow> string \<Rightarrow> string list" where
  "splitlines_from cur [] = (if cur = [] then [] else [cur])"
| "splitlines_from cur [c] =
     (if is_linebreak c then [cur] else [cur @ [c]])"
| "splitlines_from cur (c # d # ds) =
     (if c = CHR 0x0D \<and> d = CHR 0x0A then cur # splitlines_from [] ds
      else if is_linebreak c then cur # splitlines_from [] (d # ds)
      else splitlines_from (cur @ [c]) (d # ds))"

definition splitlines :: "string \<Rightarrow> string list" where
  "splitlines s = splitlines_from [] s"

text \<open>\<^verbatim>\<open>s.split("=")[0]\<close>: the text before the first \<open>=\<close>, all of \<open>s\<close> when there is none.\<close>

definition split_eq_first :: "string \<Rightarrow> string" where
  "split_eq_first s = takeWhile (\<lambda>c. c \<noteq> CHR ''='') s"

text \<open>\<^verbatim>\<open>str.strip()\<close>: white space (\<^verbatim>\<open>str.isspace\<close>, below 256) removed at both ends.\<close>

definition isspace :: "char \<Rightarrow> bool" where
  "isspace c \<longleftrightarrow>
     c \<in> {CHR 0x09, CHR 0x0A, CHR 0x0B, CHR 0x0C, CHR 0x0D, CHR 0x1C, CHR 0x1D, CHR 0x1E,
          CHR 0x1F, CHR 0x20, CHR 0x85, CHR 0xA0}"

definition strip :: "string \<Rightarrow> string" where
  "strip s = rev (dropWhile isspace (rev (dropWhile isspace s)))"

text \<open>\<^verbatim>\<open>str(n)\<close> of an \<open>Optional[int]\<close>, as the f-string of the error message renders it.\<close>

fun digits :: "nat \<Rightarrow> string" where
  "digits n = (if n < 10 then [''0123456789'' ! n] else digits (n div 10) @ [''0123456789'' ! (n mod 10)])"

definition str_int :: "int \<Rightarrow> string" where
  "str_int i = (if i < 0 then CHR ''-'' # digits (nat (- i)) else digits (nat i))"

definition str_optional_int :: "int option \<Rightarrow> string" where
  "str_optional_int n = (case n of None \<Rightarrow> ''None'' | Some i \<Rightarrow> str_int i)"

text \<open>
  \<^verbatim>\<open>re.compile(r"final_answer\((.*?)\)").search(code) is not None\<close>: somewhere in
  \<open>code\<close> the text \<open>final_answer(\<close> occurs and a \<open>)\<close> follows it before the next
  \<open>\n\<close> (the dot of the pattern matches every character but \<open>\n\<close>).
\<close>

fun closes_on_line :: "string \<Rightarrow> bool" where
  "closes_on_line [] = False"
| "closes_on_line (c # cs) =
     (if c = CHR '')'' then True else if c = nl then False else closes_on_line cs)"

fun final_answer_pattern_search :: "string \<Rightarrow> bool" where
  "final_answer_pattern_search [] = False"
| "final_answer_pattern_search (c # cs) =
     ((take 13 (c # cs) = ''final_answer('' \<and> closes_on_line (drop 13 (c # cs)))
      \<or> final_answer_pattern_search cs)"

subsection \<open>Exceptions, executions and the sandbox\<close>

text \<open>\<^verbatim>\<open>class AgentCallInterruption(Exception)\<close> with its four fields.\<close>

record 'v interruption =
  agent_name :: string
  args :: "'v list"
  kwargs :: "(string \<times> 'v) list"
  line_number :: "int option"

text \<open>
  The exceptions that reach the caller: the \<open>ValueError\<close>s and the \<open>Exception\<close> that the
  executor raises itself, the \<open>KeyError\<close> of a failed dictionary lookup, the interruption,
  and \<open>Raised\<close> for an exception of any other class (named by its class) that the sandbox
  client, an agent, the pickler or the image decoder raises.
\<close>

datatype 'v exn =
    ValueError string
  | KeyError string
  | Exception string
  | AgentCallInterruption "'v interruption"
  | Raised string

fun exception_class :: "'v exn \<Rightarrow> string" where
  "exception_class (ValueError m) = ''ValueError''"
| "exception_class (KeyError k) = ''KeyError''"
| "exception_class (Exception m) = ''Exception''"
| "exception_class (AgentCallInterruption h) = ''AgentCallInterruption''"
| "exception_class (Raised c) = c"

text \<open>\<^verbatim>\<open>execution.error\<close>: its \<open>name\<close>, \<open>value\<close> and \<open>traceback\<close>.\<close>

record exec_error =
  err_name :: string
  err_value :: string
  err_traceback :: string

text \<open>
  One element of \<^verbatim>\<open>execution.results\<close>. The image attributes hold base64 text; the
  attribute \<open>text\<close> of the source is the field \<open>text_attr\<close>.
\<close>

record 'v artifact =
  is_main_result :: bool
  jpeg :: "string option"
  png :: "string option"
  chart :: "'v option"
  data :: "'v option"
  html :: "'v option"
  javascript :: "'v option"
  json :: "'v option"
  latex :: "'v option"
  markdown :: "'v option"
  pdf :: "'v option"
  svg :: "'v option"
  text_attr :: "'v option"

text \<open>What \<^verbatim>\<open>sbx.run_code\<close> returns; \<open>stdout\<close> is \<^verbatim>\<open>execution.logs.stdout\<close>.\<close>

record 'v execution =
  error :: "exec_error option"
  stdout :: "string list"
  results :: "'v artifact list"

datatype 'v reply = Raises "'v exn" | Returns "'v execution"

text \<open>
  The operations the executor performs on its collaborators, in the order it performs them:
  a code submission (\<^verbatim>\<open>sbx.run_code\<close>), a file written to the sandbox
  (\<^verbatim>\<open>sbx.files.write\<close>, with its path) and a local call of a managed agent. The
  content of a written file is given as the dictionary whose pickle it is.
\<close>

datatype 'v event =
    Submitted string
  | Written string "(string \<times> 'v) list"
  | Invoked string "'v list" "(string \<times> 'v) list"

type_synonym 'v agent = "'v list \<Rightarrow> (string \<times> 'v) list \<Rightarrow> 'v exn + 'v"

type_synonym 'v shared_state = "(string \<times> 'v) list"

text \<open>
  The library functions applied to values of type \<open>'v\<close>: \<^verbatim>\<open>repr\<close>;
  \<^verbatim>\<open>pickle.dump\<close>, by the exception it raises for a dictionary (\<open>None\<close> when the
  dictionary can be pickled); and the decoding
  \<^verbatim>\<open>Image.open(BytesIO(base64.b64decode(s.encode("utf-8"))))\<close> of an image attribute.
\<close>

record 'v externals =
  repr :: "'v \<Rightarrow> string"
  pickle_error :: "'v shared_state \<Rightarrow> 'v exn option"
  open_image :: "string \<Rightarrow> 'v exn + 'v"

text \<open>
  The executor object. The sandbox is outside the repository: \<open>sbx\<close> gives its answer to
  the latest submission as a function of everything done so far, and \<open>history\<close> records
  what has been done (oldest first). The dictionary \<open>managed_agents\<close> is an association list.
\<close>

record 'v E2BExecutor =
  managed_agents :: "(string \<times> 'v agent) list"
  final_answer :: bool
  sbx :: "'v event list \<Rightarrow> 'v reply"
  history :: "'v event list"

subsection \<open>\<^verbatim>\<open>run_code_raise_errors\<close>\<close>

definition remote_error_message :: "'v execution \<Rightarrow> exec_error \<Rightarrow> string" where
  "remote_error_message execution err =
     join [nl] (stdout execution) @ ''Executing code yielded an error:''
       @ err_name err @ err_value err @ err_traceback err"

definition run_code_raise_errors ::
  "string \<Rightarrow> 'v E2BExecutor \<Rightarrow> ('v exn + 'v execution) \<times> 'v E2BExecutor" where
  "run_code_raise_errors code s =
     (let s1 = (if final_answer_pattern_search code then s\<lparr>final_answer := True\<rparr> else s);
          s2 = s1\<lparr>history := history s1 @ [Submitted code]\<rparr>
      in case sbx s2 (history s2) of
           Raises e \<Rightarrow> (Inl e, s2)
         | Returns execution \<Rightarrow>
             (case error execution of
                Some err \<Rightarrow> (Inl (ValueError (remote_error_message execution err)), s2)
              | None \<Rightarrow> (Inr execution, s2)))"

subsection \<open>\<^verbatim>\<open>__init__\<close>: the stubs of the managed agents and the tool definitions\<close>

text \<open>
  The text that \<^verbatim>\<open>__init__\<close> appends for a managed agent, after
  \<^verbatim>\<open>textwrap.dedent\<close> (the f-string's sixteen leading blanks removed from each line, its
  last line of blanks emptied); the agent's name is an identifier.
\<close>

definition stub_source :: "string \<Rightarrow> string" where
  "stub_source name =
     [nl] @ ''def '' @ name @ ''(*args, **kwargs):'' @ [nl]
     @ ''    line_no = sys._getframe(1).f_lineno'' @ [nl]
     @ ''    raise AgentCallInterruption('' @ [dq] @ ''sub_agent'' @ [dq]
     @ '', args, kwargs, line_number=line_no)'' @ [nl]"

text \<open>
  What a call of the stub installed under \<open>name\<close> does in the sandbox, with the arguments
  of the call and the line \<open>line_no\<close> of the calling frame: the body of the function that
  \<open>stub_source name\<close> defines raises the interruption built from the literal
  \<^verbatim>\<open>"sub_agent"\<close>.
\<close>

definition stub_call :: "string \<Rightarrow> 'v list \<Rightarrow> (string \<times> 'v) list \<Rightarrow> int \<Rightarrow> 'v exn" where
  "stub_call name call_args call_kwargs line_no =
     AgentCallInterruption
       \<lparr>agent_name = ''sub_agent'', args = call_args, kwargs = call_kwargs,
        line_number = Some line_no\<rparr>"

text \<open>The \<^verbatim>\<open>class Tool\<close> text of \<^verbatim>\<open>__init__\<close>, after \<^verbatim>\<open>textwrap.dedent\<close>.\<close>

definition tool_class_source :: string where
  "tool_class_source =
     [nl] @ ''class Tool:'' @ [nl]
     @ ''    def __call__(self, *args, **kwargs):'' @ [nl]
     @ ''        return self.forward(*args, **kwargs)'' @ [nl]
     @ [nl]
     @ ''    def forward(self, *args, **kwargs):'' @ [nl]
     @ ''        pass # to be implemented in child class'' @ [nl]"

text \<open>
  \<open>tool_definition_code\<close>: the imports of \<open>BASE_BUILTIN_MODULES\<close> (a constant of
  \<^verbatim>\<open>utils.py\<close>, a parameter here), the \<open>Tool\<close> class, the source of each tool
  (\<open>tool_codes\<close>, made by \<^verbatim>\<open>instance_to_source\<close>, a parameter as well) and one stub
  for each key of \<open>managed_agents\<close>.
\<close>

definition tool_definition_code :: "string list \<Rightarrow> string list \<Rightarrow> string list \<Rightarrow> string" where
  "tool_definition_code base_builtin_modules tool_codes agent_names =
     join [nl] (map (\<lambda>module. ''import '' @ module) base_builtin_modules)
     @ tool_class_source
     @ join [nl, nl] tool_codes
     @ concat (map (\<lambda>agent_name. [nl, nl] @ stub_source agent_name) agent_names)"

text \<open>
  The executor as \<^verbatim>\<open>__init__\<close> sets its fields, before anything is sent to the sandbox.
\<close>

definition new_executor ::
  "(string \<times> 'v agent) list \<Rightarrow> ('v event list \<Rightarrow> 'v reply) \<Rightarrow> 'v E2BExecutor" where
  "new_executor agents sandbox =
     \<lparr>managed_agents = agents, final_answer = False, sbx = sandbox, history = []\<rparr>"

text \<open>
  \<^verbatim>\<open>__init__\<close>; \<open>install_error\<close> is \<^verbatim>\<open>execution.error\<close> of the
  \<^verbatim>\<open>pip install\<close> command, which is not recorded in the history.
\<close>

definition init ::
  "string list \<Rightarrow> string list \<Rightarrow> (string \<times> 'v agent) list \<Rightarrow> string option
     \<Rightarrow> ('v event list \<Rightarrow> 'v reply) \<Rightarrow> 'v exn + 'v E2BExecutor" where
  "init base_builtin_modules tool_codes agents install_error sandbox =
     (case install_error of
        Some e \<Rightarrow> Inl (Exception (''Error installing dependencies: '' @ e))
      | None \<Rightarrow>
          (case run_code_raise_errors
                  (tool_definition_code base_builtin_modules tool_codes (map fst agents))
                  (new_executor agents sandbox) of
             (Inl e, s) \<Rightarrow> Inl e
           | (Inr execution, s) \<Rightarrow> Inr s))"

subsection \<open>\<^verbatim>\<open>__call__\<close>: pushing the state\<close>

definition state_path :: string where
  "state_path = ''/home/state.pkl''"

definition remote_unloading_code :: string where
  "remote_unloading_code =
     ''import pickle'' @ [nl]
     @ ''import os'' @ [nl]
     @ ''print('' @ [dq] @ ''File path'' @ [dq] @ '', os.path.getsize('' @ [sq]
     @ ''/home/state.pkl'' @ [sq] @ ''))'' @ [nl]
     @ ''with open('' @ [sq] @ ''/home/state.pkl'' @ [sq] @ '', '' @ [sq] @ ''rb'' @ [sq]
     @ '') as f:'' @ [nl]
     @ ''    pickle_dict = pickle.load(f)'' @ [nl]
     @ ''locals().update({key: value for key, value in pickle_dict.items()})'' @ [nl]"

text \<open>
  Lines 145 to 163: with a non-empty \<open>additional_args\<close> the pickled dictionary is written
  to the sandbox and the unloading code is submitted (outside the \<open>try\<close>, so that every
  exception of this submission reaches the caller).
\<close>

definition push_state ::
  "'v externals \<Rightarrow> 'v shared_state \<Rightarrow> 'v E2BExecutor \<Rightarrow> ('v exn + unit) \<times> 'v E2BExecutor" where
  "push_state ext additional_args s =
     (if additional_args \<noteq> [] then
        (case pickle_error ext additional_args of
           Some e \<Rightarrow> (Inl e, s)
         | None \<Rightarrow>
             (case run_code_raise_errors remote_unloading_code
                     (s\<lparr>history := history s @ [Written state_path additional_args]\<rparr>) of
                (Inl e, s1) \<Rightarrow> (Inl e, s1)
              | (Inr execution, s1) \<Rightarrow> (Inr (), s1)))
      else (Inr (), s))"

subsection \<open>\<^verbatim>\<open>__call__\<close>: the loop\<close>

definition invalid_line_message :: "int option \<Rightarrow> string \<Rightarrow> string" where
  "invalid_line_message n code_action =
     ''Invalid line number '' @ str_optional_int n @ '' for code action:'' @ [nl] @ code_action"

text \<open>
  Lines 192 to 204: the code to submit next, or the \<open>ValueError\<close> of a line number that is
  \<open>None\<close> or outside \<open>1 .. len(lines)\<close>. The slice \<^verbatim>\<open>lines[handoff.line_number - 1 :]\<close>
  is \<open>drop (n - 1) lines\<close>.
\<close>

definition resume_code :: "('v \<Rightarrow> string) \<Rightarrow> string \<Rightarrow> int option \<Rightarrow> 'v \<Rightarrow> 'v exn + string" where
  "resume_code repr_of code_action n result =
     (let lines = splitlines code_action in
      case n of
        None \<Rightarrow> Inl (ValueError (invalid_line_message n code_action))
      | Some i \<Rightarrow>
          if 0 < i \<and> i \<le> int (length lines) then
            (let variable = strip (split_eq_first (lines ! nat (i - 1)));
                 assignment_line = variable @ '' = '' @ repr_of result
             in Inr (join [nl] (assignment_line # drop (nat (i - 1)) lines)))
          else Inl (ValueError (invalid_line_message n code_action)))"

text \<open>
  Lines 174 to 204, the handler of \<^verbatim>\<open>except AgentCallInterruption as handoff\<close>: the
  agent is looked up and called, its result is stored in \<open>additional_args\<close> under the
  reported name, the dictionary is pickled and written to the sandbox, and the code is
  rewritten. The result is the exception that leaves the handler, or the code for the next
  turn of the loop; the dictionary and the executor are returned as the handler leaves them.
\<close>

definition handle_interruption ::
  "'v externals \<Rightarrow> string \<Rightarrow> 'v shared_state \<Rightarrow> 'v interruption \<Rightarrow> 'v E2BExecutor
     \<Rightarrow> ('v exn + string) \<times> 'v shared_state \<times> 'v E2BExecutor" where
  "handle_interruption ext code_action additional_args handoff s =
     (case map_of (managed_agents s) (agent_name handoff) of
        None \<Rightarrow> (Inl (KeyError (agent_name handoff)), additional_args, s)
      | Some agent \<Rightarrow>
          (let s1 = s\<lparr>history := history s
                         @ [Invoked (agent_name handoff) (args handoff) (kwargs handoff)]\<rparr>
           in case agent (args handoff) (kwargs handoff) of
                Inl e \<Rightarrow> (Inl e, additional_args, s1)
              | Inr result \<Rightarrow>
                  (let additional_args' = AList.update (agent_name handoff) result additional_args
                   in case pickle_error ext additional_args' of
                        Some e \<Rightarrow> (Inl e, additional_args', s1)
                      | None \<Rightarrow>
                          (resume_code (repr ext) code_action (line_number handoff) result,
                           additional_args',
                           s1\<lparr>history := history s1 @ [Written state_path additional_args']\<rparr>))))"

text \<open>
  Lines 165 to 206, \<^verbatim>\<open>while True\<close>: the loop ends with the execution of a submission
  that raised nothing, or with an exception; an interruption starts the next turn with the
  rewritten code. A sandbox that interrupts every submission keeps the loop running for
  ever: the result is then \<open>None\<close>.
\<close>

partial_function (option) call_loop ::
  "'v externals \<Rightarrow> string \<Rightarrow> 'v shared_state \<Rightarrow> 'v E2BExecutor
     \<Rightarrow> (('v exn + 'v execution) \<times> 'v shared_state \<times> 'v E2BExecutor) option" where
  "call_loop ext code_action additional_args s =
     (case run_code_raise_errors code_action s of
        (Inr execution, s1) \<Rightarrow> Some (Inr execution, additional_args, s1)
      | (Inl (AgentCallInterruption handoff), s1) \<Rightarrow>
          (case handle_interruption ext code_action additional_args handoff s1 of
             (Inl e, additional_args', s2) \<Rightarrow> Some (Inl e, additional_args', s2)
           | (Inr code_action', additional_args', s2) \<Rightarrow>
               call_loop ext code_action' additional_args' s2)
      | (Inl e, s1) \<Rightarrow> Some (Inl e, additional_args, s1))"

declare call_loop.simps [code]

subsection \<open>\<^verbatim>\<open>__call__\<close>: the result\<close>

text \<open>The first element of a list of attribute values that is not \<open>None\<close>.\<close>

fun first_present :: "'a option list \<Rightarrow> 'a option" where
  "first_present [] = None"
| "first_present (None # xs) = first_present xs"
| "first_present (Some x # xs) = Some x"

text \<open>
  Lines 212 to 242, the \<open>for\<close> loop over \<^verbatim>\<open>execution.results\<close>: \<open>None\<close> when the loop
  ends without a \<open>return\<close>, otherwise the value returned (or the exception of the image
  decoding).
\<close>

fun scan_results :: "'v externals \<Rightarrow> 'v artifact list \<Rightarrow> ('v exn + 'v) option" where
  "scan_results ext [] = None"
| "scan_results ext (result # rest) =
     (if is_main_result result then
        (case first_present [jpeg result, png result] of
           Some image_output \<Rightarrow> Some (open_image ext image_output)
         | None \<Rightarrow>
             (case first_present
                     [chart result, data result, html result, javascript result, json result,
                      latex result, markdown result, pdf result, svg result, text_attr result] of
                Some v \<Rightarrow> Some (Inr v)
              | None \<Rightarrow> scan_results ext rest))
      else scan_results ext rest)"

text \<open>
  Lines 208 to 245: the triple returned (result, logs, flag), the result \<open>None\<close> being
  Python's \<open>None\<close>, or the exception raised; \<open>flag\<close> is \<^verbatim>\<open>self.final_answer\<close>.
\<close>

definition extract_result ::
  "'v externals \<Rightarrow> 'v execution \<Rightarrow> bool \<Rightarrow> 'v exn + ('v option \<times> string \<times> bool)" where
  "extract_result ext execution flag =
     (let execution_logs = join [nl] (stdout execution) in
      if results execution = [] then Inr (None, execution_logs, flag)
      else
        (case scan_results ext (results execution) of
           Some (Inl e) \<Rightarrow> Inl e
         | Some (Inr v) \<Rightarrow> Inr (Some v, execution_logs, flag)
         | None \<Rightarrow>
             if flag then Inl (ValueError ''No main result returned by executor!'')
             else Inr (None, execution_logs, False)))"

text \<open>
  \<^verbatim>\<open>__call__\<close>: \<open>None\<close> when the loop does not end; otherwise what the caller gets (the
  triple or the exception), with \<open>additional_args\<close>, which the call updates in place, and
  the executor as the call leaves them.
\<close>

definition call ::
  "'v externals \<Rightarrow> string \<Rightarrow> 'v shared_state \<Rightarrow> 'v E2BExecutor
     \<Rightarrow> (('v exn + ('v option \<times> string \<times> bool)) \<times> 'v shared_state \<times> 'v E2BExecutor) option" where
  "call ext code_action additional_args s =
     (case push_state ext additional_args s of
        (Inl e, s1) \<Rightarrow> Some (Inl e, additional_args, s1)
      | (Inr u, s1) \<Rightarrow>
          (case call_loop ext code_action additional_args s1 of
             None \<Rightarrow> None
           | Some (Inl e, additional_args', s2) \<Rightarrow> Some (Inl e, additional_args', s2)
           | Some (Inr execution, additional_args', s2) \<Rightarrow>
               Some (extract_result ext execution (final_answer s2), additional_args', s2)))"

subsection \<open>Reading the history\<close>

text \<open>The code strings submitted to the sandbox, in order.\<close>

fun submissions :: "'v event list \<Rightarrow> string list" where
  "submissions [] = []"
| "submissions (Submitted code # es) = code # submissions es"
| "submissions (Written path d # es) = submissions es"
| "submissions (Invoked name a k # es) = submissions es"

text \<open>The class of the exception that a call raised, if it raised one.\<close>

definition raised_class :: "'v exn + 'a \<Rightarrow> string option" where
  "raised_class r = (case r of Inl e \<Rightarrow> Some (exception_class e) | Inr x \<Rightarrow> None)"

text \<open>
  The remote side of the state channel. The unloading code of lines 154 to 160 loads the
  dictionary pickled in \<^verbatim>\<open>/home/state.pkl\<close> and binds every key of it
  (\<^verbatim>\<open>locals().update\<close>). \<open>staged_file\<close> is the dictionary in the file after a history;
  \<open>pushed_bindings\<close> gives the remote variables as the submissions of the unloading code
  have bound them (what other submitted code binds is not followed).
\<close>

fun staged_file :: "'v event list \<Rightarrow> 'v shared_state option \<Rightarrow> 'v shared_state option" where
  "staged_file [] staged = staged"
| "staged_file (Written path d # es) staged =
     staged_file es (if path = state_path then Some d else staged)"
| "staged_file (Submitted code # es) staged = staged_file es staged"
| "staged_file (Invoked name a k # es) staged = staged_file es staged"

fun pushed_bindings ::
  "'v event list \<Rightarrow> 'v shared_state option \<Rightarrow> (string \<rightharpoonup> 'v) \<Rightarrow> (string \<rightharpoonup> 'v)" where
  "pushed_bindings [] staged vars = vars"
| "pushed_bindings (Written path d # es) staged vars =
     pushed_bindings es (if path = state_path then Some d else staged) vars"
| "pushed_bindings (Submitted code # es) staged vars =
     pushed_bindings es staged
       (if code = remote_unloading_code
        then (case staged of None \<Rightarrow> vars | Some d \<Rightarrow> vars ++ map_of d)
        else vars)"
| "pushed_bindings (Invoked name a k # es) staged vars = pushed_bindings es staged vars"

subsection \<open>Notions used in the statements\<close>

text \<open>
  The executor after \<^verbatim>\<open>run_code_raise_errors\<close> has set the flag and the submission has
  been made.
\<close>

definition submitted_state :: "string \<Rightarrow> 'v E2BExecutor \<Rightarrow> 'v E2BExecutor" where
  "submitted_state code s =
     s\<lparr>final_answer := final_answer s \<or> final_answer_pattern_search code,
       history := history s @ [Submitted code]\<rparr>"

text \<open>
  Between two states of the executor the history has grown, and the flag of the later state is
  the flag of the earlier one or set by a code string submitted in between.
\<close>

definition flag_tracks :: "'v E2BExecutor \<Rightarrow> 'v E2BExecutor \<Rightarrow> bool" where
  "flag_tracks s s' \<longleftrightarrow>
     (\<exists>new. history s' = history s @ new \<and>
        (final_answer s' \<longleftrightarrow>
           final_answer s \<or> (\<exists>c \<in> set (submissions new). final_answer_pattern_search c)))"

text \<open>
  One turn of the loop that ends in \<^verbatim>\<open>continue\<close>: the code, the dictionary and the
  executor with which the next turn starts. \<open>later_turn\<close> relates the start of a turn to
  the start of the same or any later turn of the same run of the loop.
\<close>

definition loop_turn ::
  "'v externals \<Rightarrow> string \<times> 'v shared_state \<times> 'v E2BExecutor
     \<Rightarrow> (string \<times> 'v shared_state \<times> 'v E2BExecutor) option" where
  "loop_turn ext t =
     (case t of (code_action, additional_args, s) \<Rightarrow>
        (case run_code_raise_errors code_action s of
           (Inl (AgentCallInterruption handoff), s1) \<Rightarrow>
             (case handle_interruption ext code_action additional_args handoff s1 of
                (Inr code_action', additional_args', s2) \<Rightarrow>
                  Some (code_action', additional_args', s2)
              | (Inl e, additional_args', s2) \<Rightarrow> None)
         | (r, s1) \<Rightarrow> None))"

definition later_turn ::
  "'v externals \<Rightarrow> string \<times> 'v shared_state \<times> 'v E2BExecutor
     \<Rightarrow> string \<times> 'v shared_state \<times> 'v E2BExecutor \<Rightarrow> bool" where
  "later_turn ext = (\<lambda>t t'. loop_turn ext t = Some t')\<^sup>*\<^sup>*"

text \<open>
  A reported line number that the check of lines 193 to 195 rejects: \<open>None\<close>, or a number
  outside \<open>1 .. len(lines)\<close>.
\<close>

definition invalid_line :: "string \<Rightarrow> int option \<Rightarrow> bool" where
  "invalid_line code_action n \<longleftrightarrow>
     (case n of None \<Rightarrow> True
      | Some i \<Rightarrow> i \<le> 0 \<or> int (length (splitlines code_action)) < i)"

subsection \<open>Concrete sandboxes, agents and executions\<close>

text \<open>
  A sandbox that answers its \<open>n\<close>-th submission with the \<open>n\<close>-th reply of a list, and every
  later one with \<open>last_reply\<close>.
\<close>

definition scripted :: "'v reply list \<Rightarrow> 'v reply \<Rightarrow> 'v event list \<Rightarrow> 'v reply" where
  "scripted replies last_reply h =
     (let n = length (submissions h)
      in if 0 < n \<and> n \<le> length replies then replies ! (n - 1) else last_reply)"

text \<open>Integers as values: \<open>repr\<close> is the decimal text, every dictionary can be pickled.\<close>

definition int_externals :: "int externals" where
  "int_externals =
     \<lparr>repr = str_int, pickle_error = (\<lambda>d. None),
      open_image = (\<lambda>payload. Inr (int (length payload)))\<rparr>"

definition quiet_execution :: "int execution" where
  "quiet_execution = \<lparr>error = None, stdout = [''done''], results = []\<rparr>"

definition failed_execution :: "int execution" where
  "failed_execution =
     \<lparr>error = Some \<lparr>err_name = ''NameError'', err_value = ''name y is not defined'',
                     err_traceback = ''line 1''\<rparr>,
      stdout = [''start''], results = []\<rparr>"

text \<open>An execution whose error is the interruption of a stub, as a sandbox may report it.\<close>

definition reported_interruption :: "int execution" where
  "reported_interruption =
     \<lparr>error = Some \<lparr>err_name = ''AgentCallInterruption'',
                     err_value = ''Sub-agent call interruption'', err_traceback = ''line 1''\<rparr>,
      stdout = [], results = []\<rparr>"

definition no_fields :: "int artifact" where
  "no_fields =
     \<lparr>is_main_result = False, jpeg = None, png = None, chart = None, data = None, html = None,
      javascript = None, json = None, latex = None, markdown = None, pdf = None, svg = None,
      text_attr = None\<rparr>"

text \<open>
  Three artifacts: one that is not the main result, a main result with an image and a
  document attribute, and a main result with two document attributes.
\<close>

definition secondary_artifact :: "int artifact" where
  "secondary_artifact = no_fields\<lparr>text_attr := Some 7\<rparr>"

definition image_artifact :: "int artifact" where
  "image_artifact =
     no_fields\<lparr>is_main_result := True, png := Some ''iVBORw0KGgo='', html := Some 5\<rparr>"

definition document_artifact :: "int artifact" where
  "document_artifact = no_fields\<lparr>is_main_result := True, json := Some 3, text_attr := Some 9\<rparr>"

definition secondary_execution :: "int execution" where
  "secondary_execution = \<lparr>error = None, stdout = [''done''], results = [secondary_artifact]\<rparr>"

definition image_execution :: "int execution" where
  "image_execution =
     \<lparr>error = None, stdout = [''done''], results = [secondary_artifact, image_artifact]\<rparr>"

definition document_execution :: "int execution" where
  "document_execution =
     \<lparr>error = None, stdout = [''done''], results = [secondary_artifact, document_artifact]\<rparr>"

text \<open>
  An agent that returns \<open>v\<close>, an agent that raises, and an interruption without arguments.
\<close>

definition answer_agent :: "int \<Rightarrow> int agent" where
  "answer_agent v call_args call_kwargs = Inr v"

definition failing_agent :: "int agent" where
  "failing_agent call_args call_kwargs = Inl (Raised ''RuntimeError'')"

definition report :: "string \<Rightarrow> int option \<Rightarrow> int interruption" where
  "report name n = \<lparr>agent_name = name, args = [], kwargs = [], line_number = n\<rparr>"

text \<open>
  A new executor with the one managed agent \<open>sub_agent\<close>, which returns \<open>v\<close>, on a sandbox
  that gives the listed replies and then completes without output.
\<close>

definition agent_executor :: "int \<Rightarrow> int reply list \<Rightarrow> int E2BExecutor" where
  "agent_executor v replies =
     new_executor [(''sub_agent'', answer_agent v)] (scripted replies (Returns quiet_execution))"

text \<open>
  The same executor on a sandbox that interrupts its first submissions, reporting the agent
  \<open>sub_agent\<close> and the listed line numbers; and executors without agents on a sandbox that
  always gives the same execution.
\<close>

definition interrupting_executor :: "int option list \<Rightarrow> int E2BExecutor" where
  "interrupting_executor ns =
     agent_executor 42 (map (\<lambda>n. Raises (AgentCallInterruption (report ''sub_agent'' n))) ns)"

definition quiet_executor :: "int E2BExecutor" where
  "quiet_executor = new_executor [] (scripted [] (Returns quiet_execution))"

definition secondary_executor :: "int E2BExecutor" where
  "secondary_executor = new_executor [] (scripted [] (Returns secondary_execution))"

definition assign_and_print :: string where
  "assign_and_print = ''x = sub_agent()'' @ [nl] @ ''print(x)''"

text \<open>
  The second turn of the loop on \<open>assign_and_print\<close>, after an interruption at line 1 and
  the result 42.
\<close>

definition resumed_code :: string where
  "resumed_code = ''x = 42'' @ [nl] @ ''x = sub_agent()'' @ [nl] @ ''print(x)''"

definition resumed_executor :: "int E2BExecutor" where
  "resumed_executor =
     (interrupting_executor [Some 1, None])
     \<lparr>history := [Submitted assign_and_print, Invoked ''sub_agent'' [] [],
                   Written state_path [(''sub_agent'', 42)]]\<rparr>"


section \<open>Properties\<close>

subsection \<open>Submissions\<close>

lemmas eval_defs =
  call_def push_state_def run_code_raise_errors_def new_executor_def scripted_def
  handle_interruption_def resume_code_def splitlines_def is_linebreak_def str_int_def
  split_eq_first_def strip_def isspace_def extract_result_def int_externals_def
  quiet_execution_def answer_agent_def assign_and_print_def invalid_line_message_def
  str_optional_int_def state_path_def failed_execution_def secondary_execution_def
  image_execution_def document_execution_def no_fields_def remote_error_message_def
  reported_interruption_def secondary_artifact_def image_artifact_def document_artifact_def
  interrupting_executor_def quiet_executor_def secondary_executor_def failing_agent_def
  report_def agent_executor_def invalid_line_def resumed_code_def resumed_executor_def
  loop_turn_def stub_call_def raised_class_def Let_def

lemma run_snd: "snd (run_code_raise_errors code s) = submitted_state code s"
  by (cases "final_answer_pattern_search code")
     (auto simp: run_code_raise_errors_def submitted_state_def Let_def
           split: reply.splits option.splits)

lemma run_raises:
  "sbx s (history s @ [Submitted code]) = Raises e \<Longrightarrow>
   run_code_raise_errors code s = (Inl e, submitted_state code s)"
  by (cases "final_answer_pattern_search code")
     (auto simp: run_code_raise_errors_def submitted_state_def Let_def)

lemma run_returns_error:
  "sbx s (history s @ [Submitted code]) = Returns ex \<Longrightarrow> error ex = Some err \<Longrightarrow>
   run_code_raise_errors code s
     = (Inl (ValueError (remote_error_message ex err)), submitted_state code s)"
  by (cases "final_answer_pattern_search code")
     (auto simp: run_code_raise_errors_def submitted_state_def Let_def)

lemma run_returns:
  "sbx s (history s @ [Submitted code]) = Returns ex \<Longrightarrow> error ex = None \<Longrightarrow>
   run_code_raise_errors code s = (Inr ex, submitted_state code s)"
  by (cases "final_answer_pattern_search code")
     (auto simp: run_code_raise_errors_def submitted_state_def Let_def)

lemma submissions_append: "submissions (xs @ ys) = submissions xs @ submissions ys"
  by (induction xs rule: submissions.induct) auto

subsection \<open>The turns of the loop\<close>

lemma loop_turn_call_loop:
  "loop_turn ext (c, a, s) = Some (c', a', s') \<Longrightarrow>
   call_loop ext c a s = call_loop ext c' a' s'"
  by (subst call_loop.simps)
     (auto simp: loop_turn_def split: prod.splits sum.splits exn.splits)

lemma later_turn_call_loop:
  assumes "later_turn ext t t'"
  shows "call_loop ext (fst t) (fst (snd t)) (snd (snd t))
           = call_loop ext (fst t') (fst (snd t')) (snd (snd t'))"
  using assms unfolding later_turn_def
proof (induction rule: rtranclp_induct)
  case base
  show ?case by simp
next
  case (step y z)
  from step.hyps(2) have "call_loop ext (fst y) (fst (snd y)) (snd (snd y))
           = call_loop ext (fst z) (fst (snd z)) (snd (snd z))"
    using loop_turn_call_loop
      [of ext "fst y" "fst (snd y)" "snd (snd y)" "fst z" "fst (snd z)" "snd (snd z)"]
    by simp
  with step.IH show ?case by simp
qed

lemma later_turn_refl: "later_turn ext t t"
  by (simp add: later_turn_def)

lemma later_turn_step:
  "later_turn ext t t1 \<Longrightarrow> loop_turn ext t1 = Some t2 \<Longrightarrow> later_turn ext t t2"
  by (auto simp: later_turn_def intro: rtranclp.rtrancl_into_rtrancl)

lemma call_loop_error:
  "push_state ext a0 s0 = (Inr (), s1) \<Longrightarrow>
   call_loop ext c0 a0 s1 = Some (Inl e, a', s') \<Longrightarrow>
   call ext c0 a0 s0 = Some (Inl e, a', s')"
  by (simp add: call_def)

lemma call_loop_result:
  "push_state ext a0 s0 = (Inr (), s1) \<Longrightarrow>
   call_loop ext c0 a0 s1 = Some (Inr ex, a', s') \<Longrightarrow>
   call ext c0 a0 s0 = Some (extract_result ext ex (final_answer s'), a', s')"
  by (simp add: call_def)

text \<open>
  A turn that ends in \<^verbatim>\<open>continue\<close> has submitted the code, called the agent and written
  the file, in this order, and nothing else: the handler does not submit the unloading code.
\<close>

lemma loop_turn_history:
  assumes "loop_turn ext (c, a, s) = Some (c', a', s')"
  shows "\<exists>h :: 'v interruption. history s' = history s @
           [Submitted c, Invoked (agent_name h) (args h) (kwargs h), Written state_path a']"
proof -
  obtain r s1 where run: "run_code_raise_errors c s = (r, s1)"
    by (cases "run_code_raise_errors c s")
  then have s1: "s1 = submitted_state c s"
    using run_snd[of c s] by simp
  from assms run obtain h where h: "r = Inl (AgentCallInterruption h)"
    and hd: "handle_interruption ext c a h s1 = (Inr c', a', s')"
    by (auto simp: loop_turn_def split: sum.splits exn.splits prod.splits)
  from hd have "history s' = history s1 @
           [Invoked (agent_name h) (args h) (kwargs h), Written state_path a']"
    by (auto simp: handle_interruption_def Let_def split: option.splits sum.splits)
  then have "history s' = history s @
           [Submitted c, Invoked (agent_name h) (args h) (kwargs h), Written state_path a']"
    by (simp add: s1 submitted_state_def)
  then show ?thesis by blast
qed

subsection \<open>The rewriting of the code\<close>

lemma resume_code_invalid:
  "invalid_line code n \<Longrightarrow>
   resume_code r code n v = Inl (ValueError (invalid_line_message n code))"
  by (auto simp: resume_code_def invalid_line_def Let_def split: option.splits)

lemma resume_code_error_iff:
  "(\<exists>e. resume_code r code n v = Inl e) \<longleftrightarrow> invalid_line code n"
  by (auto simp: resume_code_def invalid_line_def Let_def split: option.splits)

text \<open>
  With a line number in range, the line of the call is the second line of the new code: the
  slice starts at the call site.
\<close>

lemma resume_code_keeps_line:
  assumes "0 < i" and "i \<le> int (length (splitlines code))"
  shows "resume_code r code (Some i) v
    = Inr (join [nl]
        ((strip (split_eq_first (splitlines code ! nat (i - 1))) @ '' = '' @ r v)
         # splitlines code ! nat (i - 1) # drop (nat i) (splitlines code)))"
proof -
  have "nat (i - 1) < length (splitlines code)" and "Suc (nat (i - 1)) = nat i"
    using assms by auto
  then have "drop (nat (i - 1)) (splitlines code)
               = splitlines code ! nat (i - 1) # drop (nat i) (splitlines code)"
    using Cons_nth_drop_Suc[of "nat (i - 1)" "splitlines code"] by simp
  with assms show ?thesis
    by (simp add: resume_code_def Let_def)
qed

lemma join_Cons: "\<exists>rest. join sep (x # xs) = x @ rest"
  by (cases xs) auto

lemma split_eq_first_whole: "CHR ''='' \<notin> set line \<Longrightarrow> split_eq_first line = line"
  by (auto simp: split_eq_first_def)

text \<open>
  Claim C1 (a defect of the code). For code with one call of a managed agent, assigned to
  \<open>x\<close> at line \<open>L\<close>, the claim expects two submissions, the second being the line
  \<open>x = repr(result)\<close> followed by the lines after \<open>L\<close>, the line of the call replaced.
  The code does submit twice, but its slice \<^verbatim>\<open>lines[handoff.line_number - 1 :]\<close> starts
  at the line of the call: for \<^verbatim>\<open>x = sub_agent()\<close>, \<^verbatim>\<open>print(x)\<close>, an interruption at
  line 1 and the result 42, the second submission is \<^verbatim>\<open>x = 42\<close>, \<^verbatim>\<open>x = sub_agent()\<close>,
  \<^verbatim>\<open>print(x)\<close>: the call is still there.
\<close>

theorem resubmitted_code_keeps_call_line:
  "map_option (history \<circ> snd \<circ> snd)
     (call int_externals assign_and_print []
        (agent_executor 42 [Raises (AgentCallInterruption (report ''sub_agent'' (Some 1)))]))
   = Some [Submitted (''x = sub_agent()'' @ [nl] @ ''print(x)''),
           Invoked ''sub_agent'' [] [],
           Written ''/home/state.pkl'' [(''sub_agent'', 42)],
           Submitted (''x = 42'' @ [nl] @ ''x = sub_agent()'' @ [nl] @ ''print(x)'')]"
  by (simp add: call_loop.simps eval_defs)

text \<open>
  Claim C9, as the code has it. The rewriting does not look at the shape of the line: it
  fails exactly when the line number is invalid, and with a line number in range it
  returns code whose first line is the stripped text before the first \<open>=\<close> of the line,
  then \<open> = \<close> and \<open>repr(result)\<close>; a line without \<open>=\<close> is taken whole.
\<close>

theorem rewrite_only_checks_line_number:
  "((\<exists>e. resume_code r code_action n v = Inl e) \<longleftrightarrow> invalid_line code_action n)
   \<and> (0 < i \<and> i \<le> int (length (splitlines code_action)) \<longrightarrow>
        (\<exists>rest. resume_code r code_action (Some i) v
           = Inr (strip (split_eq_first (splitlines code_action ! nat (i - 1)))
                  @ '' = '' @ r v @ rest)))
   \<and> (CHR ''='' \<notin> set line \<longrightarrow> split_eq_first line = line)"
proof (intro conjI impI)
  show "(\<exists>e. resume_code r code_action n v = Inl e) \<longleftrightarrow> invalid_line code_action n"
    by (rule resume_code_error_iff)
next
  assume a: "0 < i \<and> i \<le> int (length (splitlines code_action))"
  let ?line = "strip (split_eq_first (splitlines code_action ! nat (i - 1))) @ '' = '' @ r v"
  obtain rest
    where "join [nl] (?line # drop (nat (i - 1)) (splitlines code_action)) = ?line @ rest"
    using join_Cons by blast
  with a show "\<exists>rest. resume_code r code_action (Some i) v
           = Inr (strip (split_eq_first (splitlines code_action ! nat (i - 1)))
                  @ '' = '' @ r v @ rest)"
    by (auto simp: resume_code_def Let_def)
next
  assume "CHR ''='' \<notin> set line"
  then show "split_eq_first line = line"
    by (rule split_eq_first_whole)
qed

theorem rewrite_only_checks_line_number_witness:
  "(0::int) < 1 \<and> 1 \<le> int (length (splitlines ''print(sub_agent())''))
   \<and> CHR ''='' \<notin> set ''print(sub_agent())''
   \<and> \<not> invalid_line ''print(sub_agent())'' (Some 1)
   \<and> (\<exists>rest. resume_code str_int ''print(sub_agent())'' (Some 1) 42
         = Inr (strip (split_eq_first (splitlines ''print(sub_agent())'' ! nat (1 - 1)))
                @ '' = '' @ str_int 42 @ rest))
   \<and> split_eq_first ''print(sub_agent())'' = ''print(sub_agent())''"
proof -
  have sl: "splitlines ''print(sub_agent())'' = [''print(sub_agent())'']"
    by (simp add: splitlines_def is_linebreak_def)
  have 1: "(0::int) < 1 \<and> 1 \<le> int (length (splitlines ''print(sub_agent())''))"
    by (simp add: sl)
  have 2: "CHR ''='' \<notin> set ''print(sub_agent())''"
    by simp
  have 3: "\<not> invalid_line ''print(sub_agent())'' (Some 1)"
    by (simp add: invalid_line_def sl)
  show ?thesis
    using rewrite_only_checks_line_number
      [where r = str_int and code_action = "''print(sub_agent())''" and n = "Some 1"
         and v = 42 and i = 1 and line = "''print(sub_agent())''"] 1 2 3
    by blast
qed

text \<open>
  Claim C9 as stated fails: the line \<^verbatim>\<open>print(sub_agent())\<close> is no assignment, yet the
  rewriting raises nothing, makes the line \<^verbatim>\<open>print(sub_agent()) = 42\<close> from it, and the
  loop submits the result.
\<close>

theorem non_assignment_line_is_rewritten:
  "resume_code str_int ''print(sub_agent())'' (Some 1) 42
     = Inr (''print(sub_agent()) = 42'' @ [nl] @ ''print(sub_agent())'')
   \<and> map_option (submissions \<circ> history \<circ> snd \<circ> snd)
       (call int_externals ''print(sub_agent())'' []
          (agent_executor 42 [Raises (AgentCallInterruption (report ''sub_agent'' (Some 1)))]))
     = Some [''print(sub_agent())'',
             ''print(sub_agent()) = 42'' @ [nl] @ ''print(sub_agent())'']"
  by (simp add: call_loop.simps eval_defs)

subsection \<open>The stubs\<close>

text \<open>
  Claim C2 (a defect of the code). The stub installed under a name \<open>n\<close> should report
  \<open>n\<close>, so that the lookup \<^verbatim>\<open>self.managed_agents[handoff.agent_name]\<close> finds the agent
  \<open>n\<close>. Every stub reports the literal \<^verbatim>\<open>"sub_agent"\<close>: with the one managed agent
  \<open>search_agent\<close>, the interruption that its stub raises makes the call end in
  \<^verbatim>\<open>KeyError('sub_agent')\<close>.
\<close>

theorem stub_reports_sub_agent:
  "stub_call ''search_agent'' [] [] 1 = AgentCallInterruption (report ''sub_agent'' (Some 1))
   \<and> map_option fst
       (call int_externals ''x = search_agent()'' []
          (new_executor [(''search_agent'', answer_agent 42)]
             (scripted [Raises (stub_call ''search_agent'' [] [] 1)] (Returns quiet_execution))))
     = Some (Inl (KeyError ''sub_agent''))"
  by (simp add: call_loop.simps eval_defs)

subsection \<open>Invalid line numbers\<close>

lemma handle_invalid_line:
  assumes "map_of (managed_agents s) (agent_name h) = Some agent"
    and "agent (args h) (kwargs h) = Inr result"
    and "pickle_error ext (AList.update (agent_name h) result a) = None"
    and "invalid_line code (line_number h)"
  shows "handle_interruption ext code a h s
    = (Inl (ValueError (invalid_line_message (line_number h) code)),
       AList.update (agent_name h) result a,
       s\<lparr>history := history s @ [Invoked (agent_name h) (args h) (kwargs h),
            Written state_path (AList.update (agent_name h) result a)]\<rparr>)"
  using assms by (simp add: handle_interruption_def Let_def resume_code_invalid)

lemma loop_invalid_line:
  assumes "sbx s (history s @ [Submitted code]) = Raises (AgentCallInterruption h)"
    and "map_of (managed_agents s) (agent_name h) = Some agent"
    and "agent (args h) (kwargs h) = Inr result"
    and "pickle_error ext (AList.update (agent_name h) result a) = None"
    and "invalid_line code (line_number h)"
  shows "call_loop ext code a s
    = Some (Inl (ValueError (invalid_line_message (line_number h) code)),
       AList.update (agent_name h) result a,
       (submitted_state code s)\<lparr>history := history s @ [Submitted code,
            Invoked (agent_name h) (args h) (kwargs h),
            Written state_path (AList.update (agent_name h) result a)]\<rparr>)"
proof -
  have m: "map_of (managed_agents (submitted_state code s)) (agent_name h) = Some agent"
    using assms(2) by (simp add: submitted_state_def)
  show ?thesis
    apply (subst call_loop.simps)
    apply (simp add: run_raises[OF assms(1)] handle_invalid_line[OF m assms(3,4,5)])
    apply (simp add: submitted_state_def)
    done
qed

lemma handle_state:
  "snd (snd (handle_interruption ext code a h s)) \<in>
     {s, s\<lparr>history := history s @ [Invoked (agent_name h) (args h) (kwargs h)]\<rparr>,
      s\<lparr>history := history s @ [Invoked (agent_name h) (args h) (kwargs h),
         Written state_path
           (AList.update (agent_name h)
              (projr (the (map_of (managed_agents s) (agent_name h)) (args h) (kwargs h))) a)]\<rparr>}"
  unfolding handle_interruption_def Let_def
  by (auto split: option.splits sum.splits)

lemma handle_submissions:
  "submissions (history (snd (snd (handle_interruption ext code a h s))))
     = submissions (history s)"
  using handle_state[of ext code a h s]
  by (auto simp: submissions_append)

lemma handle_invalid_raises:
  "invalid_line code (line_number h) \<Longrightarrow>
   \<exists>e. fst (handle_interruption ext code a h s) = Inl e"
  by (auto simp: handle_interruption_def Let_def resume_code_invalid
           split: option.splits sum.splits)

lemma loop_invalid_raises:
  assumes "sbx s (history s @ [Submitted code]) = Raises (AgentCallInterruption h)"
    and "invalid_line code (line_number h)"
  shows "\<exists>e a' s'. call_loop ext code a s = Some (Inl e, a', s')
           \<and> submissions (history s') = submissions (history s) @ [code]"
proof -
  obtain e where e: "fst (handle_interruption ext code a h (submitted_state code s)) = Inl e"
    using handle_invalid_raises[OF assms(2)] by blast
  obtain a' s'
    where hd: "handle_interruption ext code a h (submitted_state code s) = (Inl e, a', s')"
    using e by (cases "handle_interruption ext code a h (submitted_state code s)") auto
  have "call_loop ext code a s = Some (Inl e, a', s')"
    by (subst call_loop.simps) (simp add: run_raises[OF assms(1)] hd)
  moreover have "submissions (history s') = submissions (history s) @ [code]"
    using handle_submissions[of ext code a h "submitted_state code s"] hd
    by (simp add: submitted_state_def submissions_append)
  ultimately show ?thesis by blast
qed

text \<open>
  Claim C5, as the code has it. The check of the line number comes after the local call.
  When, at some turn of the loop of a call, the submission of the current code is
  interrupted with a report whose line number is \<open>None\<close>, not positive or greater than the
  number of lines of the current code, then the call raises an exception and the
  interrupted submission is the last one. The exception is
  \<^verbatim>\<open>ValueError("Invalid line number ...")\<close> when the reported name is a key of
  \<open>managed_agents\<close>, the agent returns and the updated dictionary can be pickled.
\<close>

theorem invalid_line_number_fails:
  assumes "push_state ext additional_args0 s0 = (Inr (), s1)"
    and "later_turn ext (code_action0, additional_args0, s1) (code_action, additional_args, s)"
    and "sbx s (history s @ [Submitted code_action]) = Raises (AgentCallInterruption handoff)"
    and "invalid_line code_action (line_number handoff)"
  shows "\<exists>e additional_args' s'.
           call ext code_action0 additional_args0 s0 = Some (Inl e, additional_args', s')
         \<and> submissions (history s') = submissions (history s) @ [code_action]
         \<and> (\<forall>agent result.
               map_of (managed_agents s) (agent_name handoff) = Some agent
               \<and> agent (args handoff) (kwargs handoff) = Inr result
               \<and> pickle_error ext (AList.update (agent_name handoff) result additional_args)
                   = None \<longrightarrow>
               e = ValueError (invalid_line_message (line_number handoff) code_action)
               \<and> additional_args' = AList.update (agent_name handoff) result additional_args)"
proof -
  have eq: "call_loop ext code_action0 additional_args0 s1
          = call_loop ext code_action additional_args s"
    using later_turn_call_loop[OF assms(2)] by simp
  obtain e a' s' where l: "call_loop ext code_action additional_args s = Some (Inl e, a', s')"
    and sub: "submissions (history s') = submissions (history s) @ [code_action]"
    using loop_invalid_raises[OF assms(3,4)] by blast
  have c: "call ext code_action0 additional_args0 s0 = Some (Inl e, a', s')"
    using call_loop_error[OF assms(1)] eq l by simp
  have "e = ValueError (invalid_line_message (line_number handoff) code_action)
          \<and> a' = AList.update (agent_name handoff) result additional_args"
    if "map_of (managed_agents s) (agent_name handoff) = Some agent"
      and "agent (args handoff) (kwargs handoff) = Inr result"
      and "pickle_error ext (AList.update (agent_name handoff) result additional_args) = None"
    for agent result
    using loop_invalid_line[OF assms(3) that assms(4)] l by simp
  with c sub show ?thesis by blast
qed

theorem invalid_line_number_fails_witness:
  "push_state int_externals [] (interrupting_executor [Some 3])
     = (Inr (), interrupting_executor [Some 3])
   \<and> later_turn int_externals (assign_and_print, [], interrupting_executor [Some 3])
        (assign_and_print, [], interrupting_executor [Some 3])
   \<and> sbx (interrupting_executor [Some 3])
         (history (interrupting_executor [Some 3]) @ [Submitted assign_and_print])
       = Raises (AgentCallInterruption (report ''sub_agent'' (Some 3)))
   \<and> invalid_line assign_and_print (line_number (report ''sub_agent'' (Some 3)))
   \<and> (\<exists>s'. call int_externals assign_and_print [] (interrupting_executor [Some 3])
           = Some (Inl (ValueError
                          (''Invalid line number 3 for code action:'' @ [nl]
                           @ assign_and_print)),
                   [(''sub_agent'', 42)], s')
         \<and> submissions (history s') = [assign_and_print])"
proof -
  let ?h = "report ''sub_agent'' (Some 3)"
  let ?s = "interrupting_executor [Some 3]"
  have 1: "push_state int_externals [] ?s = (Inr (), ?s)"
    by (simp add: push_state_def)
  have 2: "later_turn int_externals (assign_and_print, [], ?s) (assign_and_print, [], ?s)"
    by (rule later_turn_refl)
  have 3: "sbx ?s (history ?s @ [Submitted assign_and_print])
             = Raises (AgentCallInterruption ?h)"
    by (simp add: eval_defs)
  have 4: "invalid_line assign_and_print (line_number ?h)"
    by (simp add: eval_defs)
  have 5: "map_of (managed_agents ?s) (agent_name ?h) = Some (answer_agent 42)
           \<and> answer_agent 42 (args ?h) (kwargs ?h) = Inr 42
           \<and> pickle_error int_externals (AList.update (agent_name ?h) 42 []) = None"
    by (simp add: eval_defs)
  have 6: "invalid_line_message (line_number ?h) assign_and_print
             = ''Invalid line number 3 for code action:'' @ [nl] @ assign_and_print"
      "AList.update (agent_name ?h) 42 [] = [(''sub_agent'', 42)]" "history ?s = []"
    by (simp_all add: eval_defs)
  obtain e a' s'
    where c: "call int_externals assign_and_print [] ?s = Some (Inl e, a', s')"
      and sub: "submissions (history s') = submissions (history ?s) @ [assign_and_print]"
      and v: "\<forall>agent result.
               map_of (managed_agents ?s) (agent_name ?h) = Some agent
               \<and> agent (args ?h) (kwargs ?h) = Inr result
               \<and> pickle_error int_externals (AList.update (agent_name ?h) result []) = None
               \<longrightarrow> e = ValueError (invalid_line_message (line_number ?h) assign_and_print)
                 \<and> a' = AList.update (agent_name ?h) result []"
    using invalid_line_number_fails[OF 1 2 3 4] by blast
  from v 5
  have "e = ValueError (invalid_line_message (line_number ?h) assign_and_print)
          \<and> a' = AList.update (agent_name ?h) 42 []"
    by blast
  with c sub 1 2 3 4 show ?thesis
    unfolding 6 by simp
qed

text \<open>
  Claim C5 as stated fails: with a reported line 3 for code of two lines, a report whose
  name is no key of \<open>managed_agents\<close> (here the name that every stub reports, with the one
  managed agent \<open>search_agent\<close>) ends the call in \<^verbatim>\<open>KeyError\<close>, and an agent that raises
  ends it in the agent's exception; the line number is never looked at.
\<close>

theorem unresolved_agent_precedes_line_check:
  "map_option fst
     (call int_externals assign_and_print []
        (new_executor [(''search_agent'', answer_agent 42)]
           (scripted [Raises (AgentCallInterruption (report ''sub_agent'' (Some 3)))]
              (Returns quiet_execution))))
   = Some (Inl (KeyError ''sub_agent''))
   \<and> map_option fst
     (call int_externals assign_and_print []
        (new_executor [(''sub_agent'', failing_agent)]
           (scripted [Raises (AgentCallInterruption (report ''sub_agent'' (Some 3)))]
              (Returns quiet_execution))))
   = Some (Inl (Raised ''RuntimeError''))"
  by (simp add: call_loop.simps eval_defs)

text \<open>
  Claim C10. The failure on an invalid line number is not atomic. In the situation of the
  theorem for C5, when the \<^verbatim>\<open>ValueError\<close> reaches the caller the agent has been called
  with the reported arguments, its result is in the caller's dictionary under the
  reported name, and the updated dictionary has been written to
  \<^verbatim>\<open>/home/state.pkl\<close>: the history ends with the interrupted submission, the local call
  and the write, and no submission follows.
\<close>

theorem invalid_line_failure_not_atomic:
  assumes "push_state ext additional_args0 s0 = (Inr (), s1)"
    and "later_turn ext (code_action0, additional_args0, s1) (code_action, additional_args, s)"
    and "sbx s (history s @ [Submitted code_action]) = Raises (AgentCallInterruption handoff)"
    and "map_of (managed_agents s) (agent_name handoff) = Some agent"
    and "agent (args handoff) (kwargs handoff) = Inr result"
    and "pickle_error ext (AList.update (agent_name handoff) result additional_args) = None"
    and "invalid_line code_action (line_number handoff)"
  shows "\<exists>s'. call ext code_action0 additional_args0 s0
           = Some (Inl (ValueError (invalid_line_message (line_number handoff) code_action)),
                   AList.update (agent_name handoff) result additional_args, s')
         \<and> history s' = history s @
              [Submitted code_action,
               Invoked (agent_name handoff) (args handoff) (kwargs handoff),
               Written state_path (AList.update (agent_name handoff) result additional_args)]"
proof -
  let ?s' = "(submitted_state code_action s)\<lparr>history := history s @ [Submitted code_action,
            Invoked (agent_name handoff) (args handoff) (kwargs handoff),
            Written state_path (AList.update (agent_name handoff) result additional_args)]\<rparr>"
  have "call_loop ext code_action0 additional_args0 s1
          = call_loop ext code_action additional_args s"
    using later_turn_call_loop[OF assms(2)] by simp
  also have "\<dots> = Some (Inl (ValueError (invalid_line_message (line_number handoff) code_action)),
                   AList.update (agent_name handoff) result additional_args, ?s')"
    by (rule loop_invalid_line[OF assms(3-7)])
  finally have "call ext code_action0 additional_args0 s0
           = Some (Inl (ValueError (invalid_line_message (line_number handoff) code_action)),
                   AList.update (agent_name handoff) result additional_args, ?s')"
    by (rule call_loop_error[OF assms(1)])
  then show ?thesis by simp
qed

theorem invalid_line_failure_not_atomic_witness:
  "push_state int_externals [] (interrupting_executor [Some 1, None])
     = (Inr (), interrupting_executor [Some 1, None])
   \<and> later_turn int_externals (assign_and_print, [], interrupting_executor [Some 1, None])
        (resumed_code, [(''sub_agent'', 42)], resumed_executor)
   \<and> sbx resumed_executor (history resumed_executor @ [Submitted resumed_code])
       = Raises (AgentCallInterruption (report ''sub_agent'' None))
   \<and> map_of (managed_agents resumed_executor) (agent_name (report ''sub_agent'' None))
       = Some (answer_agent 42)
   \<and> answer_agent 42 (args (report ''sub_agent'' None)) (kwargs (report ''sub_agent'' None))
       = Inr 42
   \<and> pickle_error int_externals
        (AList.update (agent_name (report ''sub_agent'' None)) 42 [(''sub_agent'', 42)]) = None
   \<and> invalid_line resumed_code (line_number (report ''sub_agent'' None))
   \<and> (\<exists>s'. call int_externals assign_and_print [] (interrupting_executor [Some 1, None])
           = Some (Inl (ValueError
                          (''Invalid line number None for code action:'' @ [nl]
                           @ resumed_code)),
                   [(''sub_agent'', 42)], s')
         \<and> history s' =
              [Submitted assign_and_print, Invoked ''sub_agent'' [] [],
               Written state_path [(''sub_agent'', 42)],
               Submitted resumed_code, Invoked ''sub_agent'' [] [],
               Written state_path [(''sub_agent'', 42)]])"
proof -
  let ?h = "report ''sub_agent'' None"
  let ?s = "interrupting_executor [Some 1, None]"
  have 1: "push_state int_externals [] ?s = (Inr (), ?s)"
    by (simp add: push_state_def)
  have "loop_turn int_externals (assign_and_print, [], ?s)
          = Some (resumed_code, [(''sub_agent'', 42)], resumed_executor)"
    by (simp add: eval_defs)
  then have 2: "later_turn int_externals (assign_and_print, [], ?s)
          (resumed_code, [(''sub_agent'', 42)], resumed_executor)"
    by (rule later_turn_step[OF later_turn_refl])
  have 3: "sbx resumed_executor (history resumed_executor @ [Submitted resumed_code])
             = Raises (AgentCallInterruption ?h)"
    by (simp add: eval_defs)
  have 4: "map_of (managed_agents resumed_executor) (agent_name ?h) = Some (answer_agent 42)"
    by (simp add: eval_defs)
  have 5: "answer_agent 42 (args ?h) (kwargs ?h) = Inr 42"
    by (simp add: answer_agent_def)
  have 6: "pickle_error int_externals
             (AList.update (agent_name ?h) 42 [(''sub_agent'', 42)]) = None"
    by (simp add: int_externals_def)
  have 7: "invalid_line resumed_code (line_number ?h)"
    by (simp add: invalid_line_def report_def)
  have 8: "invalid_line_message (line_number ?h) resumed_code
             = ''Invalid line number None for code action:'' @ [nl] @ resumed_code"
    by (simp add: invalid_line_message_def str_optional_int_def report_def)
  have 9: "history resumed_executor = [Submitted assign_and_print, Invoked ''sub_agent'' [] [],
                   Written state_path [(''sub_agent'', 42)]]" "agent_name ?h = ''sub_agent''"
     "args ?h = []" "kwargs ?h = []"
    by (simp_all add: resumed_executor_def report_def)
  show ?thesis
    using invalid_line_failure_not_atomic[OF 1 2 3 4 5 6 7] 1 2 3 4 5 6 7
    unfolding 8 9 by simp
qed

subsection \<open>The state channel\<close>

lemma staged_file_append:
  "staged_file (xs @ ys) staged = staged_file ys (staged_file xs staged)"
  by (induction xs staged rule: staged_file.induct) auto

lemma pushed_bindings_append:
  "pushed_bindings (xs @ ys) staged vars
     = pushed_bindings ys (staged_file xs staged) (pushed_bindings xs staged vars)"
  by (induction xs staged vars rule: pushed_bindings.induct) auto

text \<open>
  The push at the start of a call writes the file and submits the unloading code, so that
  every key of the dictionary is bound remotely.
\<close>

lemma push_state_history:
  assumes "additional_args \<noteq> []" and "pickle_error ext additional_args = None"
  shows "history (snd (push_state ext additional_args s))
           = history s @ [Written state_path additional_args, Submitted remote_unloading_code]"
proof -
  let ?s1 = "s\<lparr>history := history s @ [Written state_path additional_args]\<rparr>"
  have "snd (push_state ext additional_args s)
          = snd (run_code_raise_errors remote_unloading_code ?s1)"
    using assms by (auto simp: push_state_def split: prod.splits sum.splits)
  then show ?thesis
    by (simp add: run_snd submitted_state_def)
qed

lemma push_state_binds:
  assumes "additional_args \<noteq> []" and "pickle_error ext additional_args = None"
    and "map_of additional_args k = Some v"
  shows "pushed_bindings (history (snd (push_state ext additional_args s))) staged vars k
           = Some v"
  using assms(3)
  by (simp add: push_state_history[OF assms(1,2)] pushed_bindings_append)


subsection \<open>The result of a call\<close>

lemma scan_results_no_main:
  "\<forall>r \<in> set rs. \<not> is_main_result r \<Longrightarrow> scan_results ext rs = None"
  by (induction rs) auto

lemma scan_results_skip:
  "\<forall>r \<in> set pre. \<not> is_main_result r \<Longrightarrow>
   scan_results ext (pre @ rs) = scan_results ext rs"
  by (induction pre) auto

lemma scan_results_filter:
  "scan_results ext rs = scan_results ext (filter is_main_result rs)"
  by (induction rs) (auto split: option.splits)

text \<open>
  Claim C4, as the code has it. When the loop of a call ends with an execution, the flag is
  set and no artifact of the execution is flagged as the main result, the call raises
  \<^verbatim>\<open>ValueError("No main result returned by executor!")\<close> if the execution has an
  artifact; with no artifact at all it returns \<open>None\<close>, the logs and the flag.
\<close>

theorem missing_main_result_fails:
  assumes "push_state ext additional_args s = (Inr (), s1)"
    and "call_loop ext code_action additional_args s1
           = Some (Inr execution, additional_args', s')"
    and "final_answer s'"
    and "\<forall>r \<in> set (results execution). \<not> is_main_result r"
  shows "call ext code_action additional_args s
           = Some (if results execution = []
                   then Inr (None, join [nl] (stdout execution), True)
                   else Inl (ValueError ''No main result returned by executor!''),
                   additional_args', s')"
  using assms(3) scan_results_no_main[OF assms(4), of ext]
  by (simp add: call_loop_result[OF assms(1,2)] extract_result_def Let_def)

theorem missing_main_result_fails_witness:
  "push_state int_externals [] secondary_executor = (Inr (), secondary_executor)
   \<and> call_loop int_externals ''final_answer(x)'' [] secondary_executor
     = Some (Inr secondary_execution, [],
             submitted_state ''final_answer(x)'' secondary_executor)
   \<and> final_answer (submitted_state ''final_answer(x)'' secondary_executor)
   \<and> filter is_main_result (results secondary_execution) = []
   \<and> results secondary_execution \<noteq> []
   \<and> call int_externals ''final_answer(x)'' [] secondary_executor
     = Some (Inl (ValueError ''No main result returned by executor!''), [],
             submitted_state ''final_answer(x)'' secondary_executor)"
proof -
  let ?s' = "submitted_state ''final_answer(x)'' secondary_executor"
  have 1: "push_state int_externals [] secondary_executor = (Inr (), secondary_executor)"
    by (simp add: push_state_def)
  have "sbx secondary_executor (history secondary_executor @ [Submitted ''final_answer(x)''])
          = Returns secondary_execution" and "error secondary_execution = None"
    by (simp_all add: secondary_executor_def new_executor_def scripted_def
          secondary_execution_def)
  then have 2: "call_loop int_externals ''final_answer(x)'' [] secondary_executor
             = Some (Inr secondary_execution, [], ?s')"
    by (subst call_loop.simps) (simp add: run_returns)
  have 3: "final_answer ?s'"
    by (simp add: submitted_state_def)
  have 4: "\<forall>r \<in> set (results secondary_execution). \<not> is_main_result r"
    by (simp add: eval_defs)
  have 5: "results secondary_execution \<noteq> []"
       "filter is_main_result (results secondary_execution) = []"
    by (simp_all add: eval_defs)
  show ?thesis
    using missing_main_result_fails[OF 1 2 3 4] 1 2 3 5 by simp
qed

text \<open>
  Claim C4 as stated fails for an execution without artifacts: the code
  \<^verbatim>\<open>final_answer(x)\<close> sets the flag, the execution has no results, and the call returns
  \<open>None\<close> with the logs and the flag \<open>True\<close>.
\<close>

theorem final_answer_without_artifacts_returns_none:
  "map_option fst
     (call int_externals ''final_answer(x)'' []
        (new_executor [] (scripted [] (Returns quiet_execution))))
   = Some (Inr (None, ''done'', True))"
  by (simp add: call_loop.simps eval_defs)

text \<open>
  Claim C6, as the code has it. The loop over the results looks at the artifacts flagged as
  main only. For the first of them, \<open>jpeg\<close> and then \<open>png\<close> are tried: the first that is
  not \<open>None\<close> is decoded and returned (or the decoder's exception is raised), whatever the
  other attributes hold. Without an image, the first attribute that is not \<open>None\<close> among
  chart, data, html, javascript, json, latex, markdown, pdf, svg, text is returned. With no
  artifact flagged as main, the result is \<open>None\<close> with the logs when the flag is unset or
  there is no artifact at all, and the \<^verbatim>\<open>ValueError\<close> of the missing main result
  otherwise.
\<close>

theorem result_extraction_order:
  "scan_results ext rs = scan_results ext (filter is_main_result rs)
   \<and> (results execution = pre @ r # post \<and> (\<forall>x \<in> set pre. \<not> is_main_result x)
        \<and> is_main_result r \<and> first_present [jpeg r, png r] = Some payload \<longrightarrow>
      extract_result ext execution flag
        = (case open_image ext payload of
             Inl e \<Rightarrow> Inl e
           | Inr img \<Rightarrow> Inr (Some img, join [nl] (stdout execution), flag)))
   \<and> (results execution = pre @ r # post \<and> (\<forall>x \<in> set pre. \<not> is_main_result x)
        \<and> is_main_result r \<and> jpeg r = None \<and> png r = None
        \<and> first_present
             [chart r, data r, html r, javascript r, json r, latex r, markdown r, pdf r,
              svg r, text_attr r] = Some v \<longrightarrow>
      extract_result ext execution flag = Inr (Some v, join [nl] (stdout execution), flag))
   \<and> ((\<forall>x \<in> set (results execution). \<not> is_main_result x)
        \<and> (\<not> flag \<or> results execution = []) \<longrightarrow>
      extract_result ext execution flag = Inr (None, join [nl] (stdout execution), flag))
   \<and> ((\<forall>x \<in> set (results execution). \<not> is_main_result x)
        \<and> flag \<and> results execution \<noteq> [] \<longrightarrow>
      extract_result ext execution flag
        = Inl (ValueError ''No main result returned by executor!''))"
proof (intro conjI impI)
  show "scan_results ext rs = scan_results ext (filter is_main_result rs)"
    by (rule scan_results_filter)
next
  assume a: "results execution = pre @ r # post \<and> (\<forall>x \<in> set pre. \<not> is_main_result x)
        \<and> is_main_result r \<and> first_present [jpeg r, png r] = Some payload"
  then have "scan_results ext (results execution) = Some (open_image ext payload)"
    by (simp add: scan_results_skip)
  with a show "extract_result ext execution flag
        = (case open_image ext payload of
             Inl e \<Rightarrow> Inl e
           | Inr img \<Rightarrow> Inr (Some img, join [nl] (stdout execution), flag))"
    by (simp add: extract_result_def Let_def split: sum.splits)
next
  assume a: "results execution = pre @ r # post \<and> (\<forall>x \<in> set pre. \<not> is_main_result x)
        \<and> is_main_result r \<and> jpeg r = None \<and> png r = None
        \<and> first_present
             [chart r, data r, html r, javascript r, json r, latex r, markdown r, pdf r,
              svg r, text_attr r] = Some v"
  then have "scan_results ext (results execution) = Some (Inr v)"
    by (simp add: scan_results_skip)
  with a show "extract_result ext execution flag
                 = Inr (Some v, join [nl] (stdout execution), flag)"
    by (simp add: extract_result_def Let_def)
next
  assume a: "(\<forall>x \<in> set (results execution). \<not> is_main_result x)
        \<and> (\<not> flag \<or> results execution = [])"
  then have "scan_results ext (results execution) = None"
    by (simp add: scan_results_no_main)
  with a show "extract_result ext execution flag
                 = Inr (None, join [nl] (stdout execution), flag)"
    by (auto simp: extract_result_def Let_def)
next
  assume a: "(\<forall>x \<in> set (results execution). \<not> is_main_result x)
        \<and> flag \<and> results execution \<noteq> []"
  then have "scan_results ext (results execution) = None"
    by (simp add: scan_results_no_main)
  with a show "extract_result ext execution flag
                 = Inl (ValueError ''No main result returned by executor!'')"
    by (simp add: extract_result_def Let_def)
qed

theorem result_extraction_order_witness:
  "results image_execution = [secondary_artifact] @ image_artifact # []
   \<and> results document_execution = [secondary_artifact] @ document_artifact # []
   \<and> filter is_main_result [secondary_artifact] = []
   \<and> is_main_result image_artifact
   \<and> first_present [jpeg image_artifact, png image_artifact] = Some ''iVBORw0KGgo=''
   \<and> html image_artifact = Some 5
   \<and> extract_result int_externals image_execution True = Inr (Some 12, ''done'', True)
   \<and> is_main_result document_artifact
   \<and> jpeg document_artifact = None \<and> png document_artifact = None
   \<and> json document_artifact = Some 3 \<and> text_attr document_artifact = Some 9
   \<and> extract_result int_externals document_execution True = Inr (Some 3, ''done'', True)
   \<and> results secondary_execution \<noteq> []
   \<and> extract_result int_externals secondary_execution False = Inr (None, ''done'', False)
   \<and> extract_result int_externals secondary_execution True
       = Inl (ValueError ''No main result returned by executor!'')
   \<and> scan_results int_externals (results image_execution)
       = scan_results int_externals (filter is_main_result (results image_execution))"
proof -
  have i: "results image_execution = [secondary_artifact] @ image_artifact # []
        \<and> (\<forall>x \<in> set [secondary_artifact]. \<not> is_main_result x)
        \<and> is_main_result image_artifact
        \<and> first_present [jpeg image_artifact, png image_artifact] = Some ''iVBORw0KGgo=''"
    by (simp add: eval_defs)
  have d: "results document_execution = [secondary_artifact] @ document_artifact # []
        \<and> (\<forall>x \<in> set [secondary_artifact]. \<not> is_main_result x)
        \<and> is_main_result document_artifact
        \<and> jpeg document_artifact = None \<and> png document_artifact = None
        \<and> first_present
             [chart document_artifact, data document_artifact, html document_artifact,
              javascript document_artifact, json document_artifact, latex document_artifact,
              markdown document_artifact, pdf document_artifact, svg document_artifact,
              text_attr document_artifact] = Some 3"
    by (simp add: eval_defs)
  have n: "(\<forall>x \<in> set (results secondary_execution). \<not> is_main_result x)
        \<and> (\<not> False \<or> results secondary_execution = [])"
    by (simp add: eval_defs)
  have m: "(\<forall>x \<in> set (results secondary_execution). \<not> is_main_result x)
        \<and> True \<and> results secondary_execution \<noteq> []"
    by (simp add: eval_defs)
  have f: "filter is_main_result [secondary_artifact] = []" "html image_artifact = Some 5"
      "json document_artifact = Some 3" "text_attr document_artifact = Some 9"
    by (simp_all add: eval_defs)
  have o: "open_image int_externals ''iVBORw0KGgo='' = Inr 12"
    by (simp add: int_externals_def)
  have l: "join [nl] (stdout image_execution) = ''done''"
     "join [nl] (stdout document_execution) = ''done''"
     "join [nl] (stdout secondary_execution) = ''done''"
    by (simp_all add: image_execution_def document_execution_def secondary_execution_def)
  have 1: "extract_result int_externals image_execution True = Inr (Some 12, ''done'', True)"
    using result_extraction_order
      [where ext = int_externals and execution = image_execution
         and pre = "[secondary_artifact]" and r = image_artifact and post = "[]"
         and payload = "''iVBORw0KGgo=''" and flag = True] i
    by (simp add: o l)
  have 2: "extract_result int_externals document_execution True = Inr (Some 3, ''done'', True)"
    using result_extraction_order
      [where ext = int_externals and execution = document_execution
         and pre = "[secondary_artifact]" and r = document_artifact and post = "[]"
         and flag = True and v = 3] d
    by (simp add: l)
  have 3: "extract_result int_externals secondary_execution False = Inr (None, ''done'', False)"
    using result_extraction_order
      [where ext = int_externals and execution = secondary_execution and flag = False] n
    by (simp add: l)
  have 4: "scan_results int_externals (results image_execution)
       = scan_results int_externals (filter is_main_result (results image_execution))"
    using result_extraction_order
      [where ext = int_externals and rs = "results image_execution"]
    by blast
  have 5: "extract_result int_externals secondary_execution True
             = Inl (ValueError ''No main result returned by executor!'')"
    using result_extraction_order
      [where ext = int_externals and execution = secondary_execution and flag = True] m
    by simp
  show ?thesis
    using i d f m 1 2 3 4 5 by simp
qed

text \<open>
  Claim C6 as stated fails where it promises a no-result outcome whenever no artifact is
  flagged as main: with the flag set and one artifact that is not the main result, the call
  raises.
\<close>

theorem secondary_artifact_in_final_answer_mode:
  "map_option fst
     (call int_externals ''final_answer(x)'' []
        (new_executor [] (scripted [] (Returns secondary_execution))))
   = Some (Inl (ValueError ''No main result returned by executor!''))"
  by (simp add: call_loop.simps eval_defs)

subsection \<open>The classes of the exceptions\<close>

text \<open>
  Claim C3, as the code has it. \<^verbatim>\<open>run_code_raise_errors\<close> passes on what the sandbox
  client raises, so an interruption that the client raises stays an
  \<^verbatim>\<open>AgentCallInterruption\<close>, a class other than the \<^verbatim>\<open>ValueError\<close> that it raises
  for the error of a remote execution, whatever the name of that error. The invalid line
  number and the missing main result are raised as \<^verbatim>\<open>ValueError\<close> too: the three
  failures differ in their messages, not in their class.
\<close>

theorem interruption_and_failure_classes:
  "(sbx s (history s @ [Submitted code]) = Raises e \<longrightarrow>
      fst (run_code_raise_errors code s) = Inl e)
   \<and> (sbx s (history s @ [Submitted code]) = Returns execution
        \<and> error execution = Some err \<longrightarrow>
      fst (run_code_raise_errors code s)
        = Inl (ValueError (remote_error_message execution err)))
   \<and> exception_class (AgentCallInterruption handoff :: 'v exn)
        \<noteq> exception_class (ValueError m :: 'v exn)
   \<and> (resume_code r code_action n v = Inl e1 \<longrightarrow>
      e1 = ValueError (invalid_line_message n code_action))
   \<and> (scan_results ext (results execution') = None
        \<and> extract_result ext execution' flag = Inl e2 \<longrightarrow>
      e2 = ValueError ''No main result returned by executor!'')"
proof (intro conjI impI)
  assume "sbx s (history s @ [Submitted code]) = Raises e"
  then show "fst (run_code_raise_errors code s) = Inl e"
    by (simp add: run_raises)
next
  assume "sbx s (history s @ [Submitted code]) = Returns execution
            \<and> error execution = Some err"
  then show "fst (run_code_raise_errors code s)
               = Inl (ValueError (remote_error_message execution err))"
    by (simp add: run_returns_error)
next
  show "exception_class (AgentCallInterruption handoff :: 'v exn)
          \<noteq> exception_class (ValueError m :: 'v exn)"
    by simp
next
  assume "resume_code r code_action n v = Inl e1"
  then show "e1 = ValueError (invalid_line_message n code_action)"
    by (auto simp: resume_code_def Let_def split: option.splits if_splits)
next
  assume "scan_results ext (results execution') = None
            \<and> extract_result ext execution' flag = Inl e2"
  then show "e2 = ValueError ''No main result returned by executor!''"
    by (auto simp: extract_result_def Let_def split: if_splits)
qed

theorem interruption_and_failure_classes_witness:
  "sbx (interrupting_executor [Some 1])
       (history (interrupting_executor [Some 1]) @ [Submitted assign_and_print])
     = Raises (AgentCallInterruption (report ''sub_agent'' (Some 1)))
   \<and> fst (run_code_raise_errors assign_and_print (interrupting_executor [Some 1]))
     = Inl (AgentCallInterruption (report ''sub_agent'' (Some 1)))
   \<and> sbx (agent_executor 42 [Returns failed_execution])
       (history (agent_executor 42 [Returns failed_execution]) @ [Submitted ''y''])
     = Returns failed_execution
   \<and> error failed_execution
     = Some \<lparr>err_name = ''NameError'', err_value = ''name y is not defined'',
             err_traceback = ''line 1''\<rparr>
   \<and> fst (run_code_raise_errors ''y'' (agent_executor 42 [Returns failed_execution]))
     = Inl (ValueError
         (''start'' @ ''Executing code yielded an error:'' @ ''NameError''
          @ ''name y is not defined'' @ ''line 1''))
   \<and> resume_code str_int assign_and_print (Some 3) 42
     = Inl (ValueError (''Invalid line number 3 for code action:'' @ [nl] @ assign_and_print))
   \<and> scan_results int_externals (results secondary_execution) = None
   \<and> extract_result int_externals secondary_execution True
     = Inl (ValueError ''No main result returned by executor!'')"
proof -
  let ?h = "report ''sub_agent'' (Some 1)"
  let ?a = "interrupting_executor [Some 1]"
  let ?b = "agent_executor 42 [Returns failed_execution]"
  let ?err = "\<lparr>err_name = ''NameError'', err_value = ''name y is not defined'',
             err_traceback = ''line 1''\<rparr>"
  have 1: "sbx ?a (history ?a @ [Submitted assign_and_print])
             = Raises (AgentCallInterruption ?h)"
    by (simp add: interrupting_executor_def agent_executor_def new_executor_def scripted_def)
  have 2: "sbx ?b (history ?b @ [Submitted ''y'']) = Returns failed_execution
             \<and> error failed_execution = Some ?err"
    by (simp add: agent_executor_def new_executor_def scripted_def failed_execution_def)
  have 3: "resume_code str_int assign_and_print (Some 3) 42
             = Inl (ValueError (invalid_line_message (Some 3) assign_and_print))"
    by (simp add: eval_defs)
  have 4: "scan_results int_externals (results secondary_execution) = None
             \<and> extract_result int_externals secondary_execution True
               = Inl (ValueError ''No main result returned by executor!'')"
    by (simp add: eval_defs)
  have 5: "remote_error_message failed_execution ?err
             = ''start'' @ ''Executing code yielded an error:'' @ ''NameError''
               @ ''name y is not defined'' @ ''line 1''"
    by (simp add: remote_error_message_def failed_execution_def)
  have 6: "invalid_line_message (Some 3) assign_and_print
             = ''Invalid line number 3 for code action:'' @ [nl] @ assign_and_print"
    by (simp add: eval_defs)
  have a: "fst (run_code_raise_errors assign_and_print ?a) = Inl (AgentCallInterruption ?h)"
    by (rule interruption_and_failure_classes
      [where s = ?a and code = assign_and_print and e = "AgentCallInterruption ?h",
       THEN conjunct1, THEN mp, OF 1])
  have b: "fst (run_code_raise_errors ''y'' ?b)
             = Inl (ValueError (remote_error_message failed_execution ?err))"
    by (rule interruption_and_failure_classes
      [where s = ?b and code = "''y''" and execution = failed_execution and err = ?err,
       THEN conjunct2, THEN conjunct1, THEN mp, OF 2])
  show ?thesis
    using 1 2 3 4 a b unfolding 5 6 by simp
qed

text \<open>
  Claim C3 as stated fails: a remote error, an invalid line number and a missing main
  result all reach the caller with the class \<^verbatim>\<open>ValueError\<close>; so does an interruption
  that the sandbox reports as the error of the execution.
\<close>

theorem failure_classes_share_one_type:
  "map_option (raised_class \<circ> fst)
      (call int_externals ''y'' [] (new_executor [] (scripted [] (Returns failed_execution))))
     = Some (Some ''ValueError'')
   \<and> map_option (raised_class \<circ> fst)
      (call int_externals assign_and_print []
         (agent_executor 42 [Raises (AgentCallInterruption (report ''sub_agent'' (Some 3)))]))
     = Some (Some ''ValueError'')
   \<and> map_option (raised_class \<circ> fst)
      (call int_externals ''final_answer(x)'' []
         (new_executor [] (scripted [] (Returns secondary_execution))))
     = Some (Some ''ValueError'')
   \<and> map_option (raised_class \<circ> fst)
      (call int_externals assign_and_print []
         (agent_executor 42 [Returns reported_interruption]))
     = Some (Some ''ValueError'')"
  by (simp add: call_loop.simps eval_defs)

subsection \<open>The final-answer flag\<close>

lemma flag_tracks_refl: "flag_tracks s s"
  by (auto simp: flag_tracks_def)

lemma flag_tracks_trans: "flag_tracks s s1 \<Longrightarrow> flag_tracks s1 s2 \<Longrightarrow> flag_tracks s s2"
  unfolding flag_tracks_def
  apply (elim exE conjE)
  subgoal for new new'
    apply (rule exI[of _ "new @ new'"])
    apply (auto simp: submissions_append)
    done
  done

lemma flag_tracks_run: "flag_tracks s (snd (run_code_raise_errors code s))"
  unfolding run_snd flag_tracks_def submitted_state_def
  by (rule exI[of _ "[Submitted code]"]) simp

lemma flag_tracks_history:
  "submissions new = [] \<Longrightarrow> flag_tracks s (s\<lparr>history := history s @ new\<rparr>)"
  unfolding flag_tracks_def by (intro exI[of _ new]) simp

lemma flag_tracks_mono: "flag_tracks s s' \<Longrightarrow> final_answer s \<Longrightarrow> final_answer s'"
  by (auto simp: flag_tracks_def)

lemma flag_tracks_handle: "flag_tracks s (snd (snd (handle_interruption ext code a h s)))"
  using handle_state[of ext code a h s]
  by (auto simp: flag_tracks_refl intro!: flag_tracks_history)

text \<open>Induction over the turns of a loop that ends.\<close>

lemma flag_tracks_loop:
  assumes "call_loop ext code a s = Some y"
  shows "flag_tracks s (snd (snd y))"
  using assms
proof (induction rule: call_loop.raw_induct[rotated 1, consumes 1])
  case (1 loop ext code a s y)
  obtain r s1 where run: "run_code_raise_errors code s = (r, s1)"
    by (cases "run_code_raise_errors code s")
  have g1: "flag_tracks s s1"
    using flag_tracks_run[of s code] run by simp
  show ?case
  proof (cases r)
    case (Inr ex)
    with 1(2) run g1 show ?thesis by auto
  next
    case (Inl e)
    show ?thesis
    proof (cases e)
      case (AgentCallInterruption h)
      obtain c a2 s2 where hd: "handle_interruption ext code a h s1 = (c, a2, s2)"
        by (cases "handle_interruption ext code a h s1")
      have g2: "flag_tracks s1 s2"
        using flag_tracks_handle[of s1 ext code a h] hd by simp
      show ?thesis
      proof (cases c)
        case (Inl e')
        with 1(2) run \<open>r = Inl e\<close> AgentCallInterruption hd g1 g2 show ?thesis
          by (auto intro: flag_tracks_trans)
      next
        case (Inr code')
        with 1(2) run \<open>r = Inl e\<close> AgentCallInterruption hd
        have "loop ext code' a2 s2 = Some y" by simp
        from 1(1)[OF this] g1 g2 show ?thesis
          by (blast intro: flag_tracks_trans)
      qed
    qed (use 1(2) run Inl g1 in auto)
  qed
qed

lemma flag_tracks_push: "flag_tracks s (snd (push_state ext a s))"
proof (cases "a \<noteq> [] \<and> pickle_error ext a = None")
  case True
  let ?s1 = "s\<lparr>history := history s @ [Written state_path a]\<rparr>"
  have "snd (push_state ext a s) = snd (run_code_raise_errors remote_unloading_code ?s1)"
    using True by (auto simp: push_state_def split: prod.splits sum.splits)
  moreover have "flag_tracks s ?s1"
    by (rule flag_tracks_history) simp
  ultimately show ?thesis
    using flag_tracks_run[of ?s1 remote_unloading_code] by (auto intro: flag_tracks_trans)
next
  case False
  then have "snd (push_state ext a s) = s"
    by (auto simp: push_state_def split: option.splits)
  then show ?thesis by (simp add: flag_tracks_refl)
qed

lemma extract_result_flag:
  "extract_result ext ex flag = Inr (v, logs, b) \<Longrightarrow> b = flag"
  by (auto simp: extract_result_def Let_def split: if_splits option.splits sum.splits)

lemma call_cases:
  assumes "call ext code a s = Some (out, a', s')"
  obtains e where "push_state ext a s = (Inl e, s')" "out = Inl e" "a' = a"
  | s1 e where "push_state ext a s = (Inr (), s1)"
      "call_loop ext code a s1 = Some (Inl e, a', s')" "out = Inl e"
  | s1 ex where "push_state ext a s = (Inr (), s1)"
      "call_loop ext code a s1 = Some (Inr ex, a', s')"
      "out = extract_result ext ex (final_answer s')"
  using assms
  by (auto simp: call_def split: prod.splits sum.splits option.splits)

lemma flag_tracks_call:
  assumes "call ext code a s = Some (out, a', s')"
  shows "flag_tracks s s'"
  using assms
proof (cases rule: call_cases)
  case (1 e)
  then show ?thesis using flag_tracks_push[of s ext a] by simp
next
  case (2 s1 e)
  then show ?thesis
    using flag_tracks_push[of s ext a] flag_tracks_loop[OF 2(2)]
    by (auto intro: flag_tracks_trans)
next
  case (3 s1 ex)
  then show ?thesis
    using flag_tracks_push[of s ext a] flag_tracks_loop[OF 3(2)]
    by (auto intro: flag_tracks_trans)
qed

lemma call_returned_flag:
  assumes "call ext code a s = Some (Inr (v, logs, b), a', s')"
  shows "b = final_answer s'"
  using assms
  by (cases rule: call_cases) (auto dest: extract_result_flag[OF sym])

lemma flag_tracks_turn:
  assumes "loop_turn ext t = Some t'"
  shows "flag_tracks (snd (snd t)) (snd (snd t'))"
proof -
  obtain c a s where t: "t = (c, a, s)" by (cases t)
  obtain r s1 where run: "run_code_raise_errors c s = (r, s1)"
    by (cases "run_code_raise_errors c s")
  from assms t run obtain h where h: "r = Inl (AgentCallInterruption h)"
    and hd: "snd (snd (handle_interruption ext c a h s1)) = snd (snd t')"
    by (auto simp: loop_turn_def split: sum.splits exn.splits prod.splits)
  have "flag_tracks s s1"
    using flag_tracks_run[of s c] run by simp
  moreover have "flag_tracks s1 (snd (snd t'))"
    using flag_tracks_handle[of s1 ext c a h] hd by simp
  ultimately show ?thesis
    using t by (auto intro: flag_tracks_trans)
qed

lemma flag_tracks_later_turn:
  assumes "later_turn ext t t'"
  shows "flag_tracks (snd (snd t)) (snd (snd t'))"
  using assms unfolding later_turn_def
proof (induction rule: rtranclp_induct)
  case base
  show ?case by (rule flag_tracks_refl)
next
  case (step y z)
  then show ?case
    by (blast intro: flag_tracks_trans flag_tracks_turn)
qed

lemma init_flag:
  assumes "init mods tools agents install_error sandbox = Inr s"
  shows "final_answer s
           \<longleftrightarrow> final_answer_pattern_search (tool_definition_code mods tools (map fst agents))"
proof -
  let ?code = "tool_definition_code mods tools (map fst agents)"
  from assms have "s = snd (run_code_raise_errors ?code (new_executor agents sandbox))"
    by (auto simp: init_def split: option.splits prod.splits sum.splits)
  then show ?thesis
    by (simp add: run_snd submitted_state_def new_executor_def)
qed

text \<open>
  Claim C7. The final-answer flag is monotone over the life of an executor: \<^verbatim>\<open>__init__\<close>
  creates it unset (and leaves it set exactly when the tool definitions that it submits match
  the pattern); \<^verbatim>\<open>run_code_raise_errors\<close> leaves it set if it was set and sets it when
  the submitted code matches the pattern; it stays set from turn to turn of the loop of a
  call, whether the loop ends or not; after a \<^verbatim>\<open>__call__\<close> it is still set if it was
  set before, it is set exactly when it was set before or one of the code strings
  submitted during the call matches the pattern, and the boolean of the returned triple is
  the flag of the executor as the call leaves it.
\<close>

theorem final_answer_flag_monotone:
  "final_answer (new_executor agents sandbox) = False
   \<and> (init mods tools agents install_error sandbox = Inr s0 \<longrightarrow>
        (final_answer s0 \<longleftrightarrow>
           final_answer_pattern_search (tool_definition_code mods tools (map fst agents))))
   \<and> (run_code_raise_errors code s = (r, s1) \<longrightarrow>
        (final_answer s1 \<longleftrightarrow> final_answer s \<or> final_answer_pattern_search code))
   \<and> (later_turn ext (code_action, additional_args, s) (code_action2, additional_args2, s2)
        \<longrightarrow> (final_answer s \<longrightarrow> final_answer s2))
   \<and> (call ext code_action additional_args s = Some (out, additional_args', s') \<longrightarrow>
        (final_answer s \<longrightarrow> final_answer s')
        \<and> (\<exists>new. history s' = history s @ new
              \<and> (final_answer s' \<longleftrightarrow>
                   final_answer s
                   \<or> (\<exists>c \<in> set (submissions new). final_answer_pattern_search c)))
        \<and> (\<forall>v logs flag. out = Inr (v, logs, flag) \<longrightarrow> flag = final_answer s'))"
proof (intro conjI impI allI)
  show "final_answer (new_executor agents sandbox) = False"
    by (simp add: new_executor_def)
next
  assume "init mods tools agents install_error sandbox = Inr s0"
  then show "final_answer s0 \<longleftrightarrow>
           final_answer_pattern_search (tool_definition_code mods tools (map fst agents))"
    by (rule init_flag)
next
  assume "later_turn ext (code_action, additional_args, s) (code_action2, additional_args2, s2)"
    and "final_answer s"
  then show "final_answer s2"
    using flag_tracks_later_turn flag_tracks_mono by fastforce
next
  assume "run_code_raise_errors code s = (r, s1)"
  then have "s1 = submitted_state code s"
    using run_snd[of code s] by simp
  then show "final_answer s1 \<longleftrightarrow> final_answer s \<or> final_answer_pattern_search code"
    by (simp add: submitted_state_def)
next
  assume c: "call ext code_action additional_args s = Some (out, additional_args', s')"
  have t: "flag_tracks s s'"
    by (rule flag_tracks_call[OF c])
  from t show "\<exists>new. history s' = history s @ new
              \<and> (final_answer s' \<longleftrightarrow>
                   final_answer s
                   \<or> (\<exists>c \<in> set (submissions new). final_answer_pattern_search c))"
    by (simp add: flag_tracks_def)
  { assume "final_answer s" with t show "final_answer s'" by (rule flag_tracks_mono) }
  { fix v logs flag assume "out = Inr (v, logs, flag)"
    with c show "flag = final_answer s'" by (auto dest: call_returned_flag) }
qed

theorem final_answer_flag_monotone_witness:
  "init [] [] [] None (scripted [] (Returns quiet_execution))
     = Inr (submitted_state (tool_definition_code [] [] []) quiet_executor)
   \<and> \<not> final_answer (submitted_state (tool_definition_code [] [] []) quiet_executor)
   \<and> \<not> final_answer quiet_executor
   \<and> run_code_raise_errors ''final_answer(x)'' quiet_executor
     = (Inr quiet_execution, submitted_state ''final_answer(x)'' quiet_executor)
   \<and> call int_externals ''final_answer(x)'' [] quiet_executor
     = Some (Inr (None, ''done'', True), [], submitted_state ''final_answer(x)'' quiet_executor)
   \<and> final_answer (submitted_state ''final_answer(x)'' quiet_executor)
   \<and> later_turn int_externals
        (assign_and_print, [], (interrupting_executor [Some 1, None])\<lparr>final_answer := True\<rparr>)
        (resumed_code, [(''sub_agent'', 42)], resumed_executor\<lparr>final_answer := True\<rparr>)
   \<and> final_answer (resumed_executor\<lparr>final_answer := True\<rparr>)"
proof -
  let ?q = "submitted_state ''final_answer(x)'' quiet_executor"
  let ?z = "submitted_state (tool_definition_code [] [] []) quiet_executor"
  let ?t = "(interrupting_executor [Some 1, None])\<lparr>final_answer := True\<rparr>"
  let ?t' = "resumed_executor\<lparr>final_answer := True\<rparr>"
  have n: "\<not> final_answer_pattern_search (tool_definition_code [] [] [])"
    by (simp add: tool_definition_code_def tool_class_source_def)
  have rz: "run_code_raise_errors (tool_definition_code [] [] []) quiet_executor
              = (Inr quiet_execution, ?z)"
    by (rule run_returns) (simp_all add: quiet_executor_def new_executor_def scripted_def
          quiet_execution_def)
  have i: "init [] [] [] None (scripted [] (Returns quiet_execution)) = Inr ?z"
    using rz by (simp add: init_def quiet_executor_def)
  have r: "run_code_raise_errors ''final_answer(x)'' quiet_executor = (Inr quiet_execution, ?q)"
    by (rule run_returns) (simp_all add: quiet_executor_def new_executor_def scripted_def
          quiet_execution_def)
  have q: "final_answer ?q" "\<not> final_answer quiet_executor" "\<not> final_answer ?z"
    using n by (simp_all add: submitted_state_def quiet_executor_def new_executor_def)
  have c: "call int_externals ''final_answer(x)'' [] quiet_executor
             = Some (Inr (None, ''done'', True), [], ?q)"
    using r q(1)
    by (simp add: call_def push_state_def call_loop.simps extract_result_def
          quiet_execution_def)
  have "loop_turn int_externals (assign_and_print, [], ?t)
          = Some (resumed_code, [(''sub_agent'', 42)], ?t')"
    by (simp add: eval_defs)
  then have l: "later_turn int_externals (assign_and_print, [], ?t)
          (resumed_code, [(''sub_agent'', 42)], ?t')"
    by (rule later_turn_step[OF later_turn_refl])
  have 1: "\<forall>v logs flag. Inr (None, ''done'', True) = Inr (v, logs, flag)
             \<longrightarrow> flag = final_answer ?q"
    using final_answer_flag_monotone
      [where agents = "[]" and sandbox = "scripted [] (Returns quiet_execution)"
         and mods = "[]" and tools = "[]" and install_error = None and ?s0.0 = ?z
         and code = "''final_answer(x)''" and s = quiet_executor
         and r = "Inr quiet_execution" and ?s1.0 = ?q and ext = int_externals
         and code_action = "''final_answer(x)''" and additional_args = "[]"
         and out = "Inr (None, ''done'', True)" and additional_args' = "[]" and s' = ?q]
      i r c
    by blast
  have 2: "final_answer ?t'"
    using final_answer_flag_monotone
      [where s = ?t and ext = int_externals and code_action = assign_and_print
         and additional_args = "[]" and ?code_action2.0 = resumed_code
         and ?additional_args2.0 = "[(''sub_agent'', 42)]" and ?s2.0 = ?t'] l
    by simp
  show ?thesis
    using i r c l q 1 2 by simp
qed

end
